theory Spec2Isabelle
  imports Main "HOL-Library.Word"
begin

section \<open>The output destination\<close>

text \<open>
  \<^verbatim>\<open>OutputManager\<close> writes to a \<^verbatim>\<open>std::basic_ostream\<close> it holds by reference. The
  stream is the C++ standard library's; the part of its state that \<^verbatim>\<open>OutputManager.h\<close>
  reads or writes is modelled here, after the rules of the C++ standard for formatted
  output:
  \<^item> the characters written so far;
  \<^item> the format flags of the groups \<^verbatim>\<open>adjustfield\<close> and \<^verbatim>\<open>floatfield\<close>;
  \<^item> the field width, which every formatted insertion uses and then resets to 0;
  \<^item> the precision and the fill character.
  Machine integers follow the LP64 and LLP64 platforms: \<^verbatim>\<open>size_t\<close> has 64 bits,
  \<^verbatim>\<open>int\<close> has 32 bits, and \<^verbatim>\<open>std::streamsize\<close> is wide enough for every \<^verbatim>\<open>int\<close>.
  The sections of the standard are [ostream.formatted.reqmts] for the padding,
  [string.io] for the insertion of a string, [facet.num.put.virtuals] for the padding of
  a number, [std.manip] for \<^verbatim>\<open>setw(int)\<close> and \<^verbatim>\<open>setprecision(int)\<close>, and
  [fmtflags.manip] for the manipulators of the flags.
\<close>

type_synonym size_t = "64 word"
type_synonym cint = "32 word"

datatype fmtflag = left | right | internal | fixed | scientific

definition adjustfield :: "fmtflag set" where
  "adjustfield = {left, right, internal}"

definition floatfield :: "fmtflag set" where
  "floatfield = {fixed, scientific}"

record ostream =
  chars :: string
  flags :: "fmtflag set"
  width :: int
  precision :: int
  fill :: char

text \<open>\<^verbatim>\<open>os.setf(f, grp)\<close> and \<^verbatim>\<open>os.unsetf(f)\<close> of \<^verbatim>\<open>std::ios_base\<close>.\<close>

definition setf :: "fmtflag \<Rightarrow> fmtflag set \<Rightarrow> ostream \<Rightarrow> ostream" where
  "setf f grp os = os\<lparr>flags := insert f (flags os - grp)\<rparr>"

definition unsetf :: "fmtflag \<Rightarrow> ostream \<Rightarrow> ostream" where
  "unsetf f os = os\<lparr>flags := flags os - {f}\<rparr>"

text \<open>The manipulators \<^verbatim>\<open>std::left\<close>, \<^verbatim>\<open>std::right\<close>, \<^verbatim>\<open>std::internal\<close>, \<^verbatim>\<open>std::fixed\<close>,
  \<^verbatim>\<open>std::scientific\<close>, \<^verbatim>\<open>std::setw(int)\<close> and \<^verbatim>\<open>std::setprecision(int)\<close>.\<close>

definition std_left :: "ostream \<Rightarrow> ostream" where
  "std_left = setf left adjustfield"

definition std_right :: "ostream \<Rightarrow> ostream" where
  "std_right = setf right adjustfield"

definition std_internal :: "ostream \<Rightarrow> ostream" where
  "std_internal = setf internal adjustfield"

definition std_fixed :: "ostream \<Rightarrow> ostream" where
  "std_fixed = setf fixed floatfield"

definition std_scientific :: "ostream \<Rightarrow> ostream" where
  "std_scientific = setf scientific floatfield"

definition setw :: "cint \<Rightarrow> ostream \<Rightarrow> ostream" where
  "setw n os = os\<lparr>width := sint n\<rparr>"

definition setprecision :: "cint \<Rightarrow> ostream \<Rightarrow> ostream" where
  "setprecision n os = os\<lparr>precision := sint n\<rparr>"

text \<open>
  A formatted insertion turns its argument into a character sequence, pads the sequence to
  the field width and resets the width. The sequence is kept in two parts, the sign or base
  prefix of a number (empty for everything else) and the rest, because \<^verbatim>\<open>internal\<close>
  adjustment pads between them. Fill characters go after the sequence when the
  adjustment is \<^verbatim>\<open>left\<close>, after the prefix when it is \<^verbatim>\<open>internal\<close>, and before the
  sequence otherwise. A sequence as long as the width or longer, and any sequence under a
  width of 0 or less, is written as it is.
\<close>

type_synonym charseq = "string \<times> string"

definition pad :: "fmtflag set \<Rightarrow> char \<Rightarrow> int \<Rightarrow> charseq \<Rightarrow> string" where
  "pad fl c w sq =
     (let f = replicate (nat w - length (fst sq @ snd sq)) c in
      if fl \<inter> adjustfield = {left} then fst sq @ snd sq @ f
      else if fl \<inter> adjustfield = {internal} then fst sq @ f @ snd sq
      else f @ fst sq @ snd sq)"

definition insert_seq :: "charseq \<Rightarrow> ostream \<Rightarrow> ostream" where
  "insert_seq sq os =
     os\<lparr>chars := chars os @ pad (flags os) (fill os) (width os) sq, width := 0\<rparr>"

text \<open>\<^verbatim>\<open>os << s\<close> for a string \<^verbatim>\<open>s\<close> of \<^verbatim>\<open>StringType\<close>.\<close>

definition insert_string :: "string \<Rightarrow> ostream \<Rightarrow> ostream" where
  "insert_string s = insert_seq ([], s)"

text \<open>
  \<^verbatim>\<open>os << v\<close> for a value of a printable type \<^verbatim>\<open>T\<close>. The \<^verbatim>\<open>operator<<\<close> of \<^verbatim>\<open>T\<close> is
  no part of the repository, and the templates of the class take every type that has
  one: it is a parameter, any function of the value on the stream. It may be one formatted
  insertion, several of them (as for \<^verbatim>\<open>std::error_code\<close>, written as
  \<^verbatim>\<open>os << name << ':' << value\<close>) or none (a manipulator). Values of the different types
  of an argument pack are taken as one type \<open>'v\<close>.
\<close>

type_synonym 'v inserter = "'v \<Rightarrow> ostream \<Rightarrow> ostream"

text \<open>
  The \<^verbatim>\<open>operator<<\<close> of the types that are written in one formatted insertion, as the
  arithmetic types, the characters and the strings are: the conversion \<open>conv\<close> of the value
  to its characters, a function of the format flags, the precision and the value, and
  then the padding.
\<close>

type_synonym 'v conv = "fmtflag set \<Rightarrow> int \<Rightarrow> 'v \<Rightarrow> charseq"

definition formatted :: "'v conv \<Rightarrow> 'v inserter" where
  "formatted conv v os = insert_seq (conv (flags os) (precision os) v) os"

section \<open>The class OutputManager\<close>

text \<open>
  The attributes of the class. \<^verbatim>\<open>OutStream__\<close> is a reference: the address of a stream
  in the memory of the program.
\<close>

type_synonym addr = nat

type_synonym memory = "addr \<Rightarrow> ostream"

record OutputManager =
  OutStream :: addr
  Separator :: string
  EndOfLine :: string
  Width :: size_t

text \<open>The conversion of \<^verbatim>\<open>size_t\<close> to the \<^verbatim>\<open>int\<close> parameter of \<^verbatim>\<open>std::setw\<close> and
  \<^verbatim>\<open>std::setprecision\<close>.\<close>

definition to_int :: "size_t \<Rightarrow> cint" where
  "to_int n = ucast n"

subsection \<open>Operators\<close>

text \<open>
  The three overloads of \<^verbatim>\<open>operator()\<close>, on the list of the arguments of the call. Every
  member function below is given as a function on the stream that \<^verbatim>\<open>OutStream__\<close>
  refers to.
\<close>

fun operator_call :: "'v inserter \<Rightarrow> OutputManager \<Rightarrow> 'v list \<Rightarrow> ostream \<Rightarrow> ostream" where
  "operator_call ins om [] os = insert_string (EndOfLine om) os"
| "operator_call ins om [ToPrint] os =
     insert_string (EndOfLine om)
       (ins ToPrint (setw (to_int (Width om)) os))"
| "operator_call ins om (ToPrint # ToPass) os =
     operator_call ins om ToPass
       (insert_string (Separator om)
         (ins ToPrint (setw (to_int (Width om)) os)))"

subsection \<open>Formatters\<close>

text \<open>
  A range \<^verbatim>\<open>[Begin, End)\<close> is the list of its elements. An iterator of the pack
  \<^verbatim>\<open>Others\<close> is the list of the elements from its position to the end of its sequence;
  dereferencing or advancing it at the end is undefined behaviour, the result \<open>None\<close>.
\<close>

fun PrintRange :: "'v inserter \<Rightarrow> OutputManager \<Rightarrow> 'v list \<Rightarrow> ostream \<Rightarrow> ostream" where
  "PrintRange ins om [] os = insert_string (EndOfLine om) os"
| "PrintRange ins om (x # xs) os =
     PrintRange ins om xs
       (insert_string (Separator om)
         (ins x (setw (to_int (Width om)) os)))"

fun FormatToColumns ::
  "'v inserter \<Rightarrow> OutputManager \<Rightarrow> 'v list \<Rightarrow> 'v list list \<Rightarrow> ostream \<Rightarrow> ostream option" where
  "FormatToColumns ins om [] Others os = Some os"
| "FormatToColumns ins om (x # xs) Others os =
     (if [] \<in> set Others then None
      else FormatToColumns ins om xs (map tl Others)
             (operator_call ins om (x # map hd Others) os))"

text \<open>The fold over \<^verbatim>\<open>Others\<close> in \<^verbatim>\<open>FormatToRows\<close>; \<open>n\<close> is \<^verbatim>\<open>std::distance(Begin, End)\<close>.\<close>

fun rows_of_others ::
  "'v inserter \<Rightarrow> OutputManager \<Rightarrow> nat \<Rightarrow> 'v list list \<Rightarrow> ostream \<Rightarrow> ostream option" where
  "rows_of_others ins om n [] os = Some os"
| "rows_of_others ins om n (NewBegin # rest) os =
     (if n \<le> length NewBegin
      then rows_of_others ins om n rest (PrintRange ins om (take n NewBegin) os)
      else None)"

definition FormatToRows ::
  "'v inserter \<Rightarrow> OutputManager \<Rightarrow> 'v list \<Rightarrow> 'v list list \<Rightarrow> ostream \<Rightarrow> ostream option" where
  "FormatToRows ins om xs Others os =
     rows_of_others ins om (length xs) Others (PrintRange ins om xs os)"

text \<open>In \<^verbatim>\<open>FirstNElementsRows\<close> the first sequence is given by its \<^verbatim>\<open>Begin\<close> alone.\<close>

definition FirstNElementsRows ::
  "'v inserter \<Rightarrow> OutputManager \<Rightarrow> size_t \<Rightarrow> 'v list \<Rightarrow> 'v list list \<Rightarrow> ostream \<Rightarrow> ostream option" where
  "FirstNElementsRows ins om N Begin Others os =
     (if unat N \<le> length Begin
      then FormatToRows ins om (take (unat N) Begin) Others os
      else None)"

subsection \<open>Setters\<close>

definition SetWidth :: "size_t \<Rightarrow> OutputManager \<Rightarrow> OutputManager" where
  "SetWidth n om = om\<lparr>Width := n\<rparr>"

definition SetSeparator :: "string \<Rightarrow> OutputManager \<Rightarrow> OutputManager" where
  "SetSeparator s om = om\<lparr>Separator := s\<rparr>"

definition SetEndOfLine :: "string \<Rightarrow> OutputManager \<Rightarrow> OutputManager" where
  "SetEndOfLine s om = om\<lparr>EndOfLine := s\<rparr>"

definition SetAlignment :: "cint \<Rightarrow> ostream \<Rightarrow> ostream" where
  "SetAlignment Alignment os =
     (if Alignment \<noteq> 0 then
        if 0 < sint Alignment then std_left os
        else std_right os
      else std_internal os)"

definition SetPrecision :: "size_t \<Rightarrow> ostream \<Rightarrow> ostream" where
  "SetPrecision Precision os = setprecision (to_int Precision) os"

definition SetFloatMode :: "cint \<Rightarrow> ostream \<Rightarrow> ostream" where
  "SetFloatMode Mode os =
     (if Mode \<noteq> 0 then
        if 0 < sint Mode then std_fixed os
        else std_scientific os
      else unsetf scientific (unsetf fixed os))"

subsection \<open>Constructors\<close>

text \<open>
  The four constructors, on the memory that holds the streams. \<^verbatim>\<open>std::wcout\<close> is a
  stream at an address of its own. Each constructor initialises the attributes and then
  calls \<^verbatim>\<open>SetAlignment(1)\<close> on the stream it refers to.
\<close>

definition wcout :: addr where
  "wcout = 0"

definition on_stream :: "OutputManager \<Rightarrow> (ostream \<Rightarrow> ostream) \<Rightarrow> memory \<Rightarrow> memory" where
  "on_stream om f mem = mem(OutStream om := f (mem (OutStream om)))"

definition construct :: "addr \<Rightarrow> string \<Rightarrow> string \<Rightarrow> memory \<Rightarrow> OutputManager \<times> memory" where
  "construct out sep eol mem =
     (let om = \<lparr>OutStream = out, Separator = sep, EndOfLine = eol, Width = 0\<rparr>
      in (om, on_stream om (SetAlignment 1) mem))"

definition OutputManager_default :: "memory \<Rightarrow> OutputManager \<times> memory" where
  "OutputManager_default = construct wcout '' '' [CHR 0x0A]"

definition OutputManager_stream :: "addr \<Rightarrow> memory \<Rightarrow> OutputManager \<times> memory" where
  "OutputManager_stream out = construct out '' '' [CHR 0x0A]"

definition OutputManager_strings :: "string \<Rightarrow> string \<Rightarrow> memory \<Rightarrow> OutputManager \<times> memory" where
  "OutputManager_strings sep eol = construct wcout sep eol"

definition OutputManager_all ::
  "addr \<Rightarrow> string \<Rightarrow> string \<Rightarrow> memory \<Rightarrow> OutputManager \<times> memory" where
  "OutputManager_all out sep eol = construct out sep eol"

subsection \<open>Sequences of calls\<close>

text \<open>
  The public member functions as the calls a program can make on one object, and their
  effect on the object and on the memory. A call with undefined behaviour has no result.
\<close>

datatype 'v call =
    Call "'v list"
  | CallPrintRange "'v list"
  | CallFormatToColumns "'v list" "'v list list"
  | CallFormatToRows "'v list" "'v list list"
  | CallFirstNElementsRows size_t "'v list" "'v list list"
  | CallSetWidth size_t
  | CallSetSeparator string
  | CallSetEndOfLine string
  | CallSetAlignment cint
  | CallSetPrecision size_t
  | CallSetFloatMode cint

definition on_stream_opt ::
  "OutputManager \<Rightarrow> (ostream \<Rightarrow> ostream option) \<Rightarrow> memory \<Rightarrow> (OutputManager \<times> memory) option" where
  "on_stream_opt om f mem =
     (case f (mem (OutStream om)) of
        None \<Rightarrow> None
      | Some os \<Rightarrow> Some (om, mem(OutStream om := os)))"

fun exec ::
  "'v inserter \<Rightarrow> 'v call \<Rightarrow> OutputManager \<times> memory \<Rightarrow> (OutputManager \<times> memory) option" where
  "exec ins (Call vs) (om, mem) = Some (om, on_stream om (operator_call ins om vs) mem)"
| "exec ins (CallPrintRange xs) (om, mem) = Some (om, on_stream om (PrintRange ins om xs) mem)"
| "exec ins (CallFormatToColumns xs Others) (om, mem) =
     on_stream_opt om (FormatToColumns ins om xs Others) mem"
| "exec ins (CallFormatToRows xs Others) (om, mem) =
     on_stream_opt om (FormatToRows ins om xs Others) mem"
| "exec ins (CallFirstNElementsRows N xs Others) (om, mem) =
     on_stream_opt om (FirstNElementsRows ins om N xs Others) mem"
| "exec ins (CallSetWidth n) (om, mem) = Some (SetWidth n om, mem)"
| "exec ins (CallSetSeparator s) (om, mem) = Some (SetSeparator s om, mem)"
| "exec ins (CallSetEndOfLine s) (om, mem) = Some (SetEndOfLine s om, mem)"
| "exec ins (CallSetAlignment a) (om, mem) = Some (om, on_stream om (SetAlignment a) mem)"
| "exec ins (CallSetPrecision n) (om, mem) = Some (om, on_stream om (SetPrecision n) mem)"
| "exec ins (CallSetFloatMode m) (om, mem) = Some (om, on_stream om (SetFloatMode m) mem)"

fun run ::
  "'v inserter \<Rightarrow> 'v call list \<Rightarrow> OutputManager \<times> memory \<Rightarrow> (OutputManager \<times> memory) option" where
  "run ins [] s = Some s"
| "run ins (c # cs) s = (case exec ins c s of None \<Rightarrow> None | Some s' \<Rightarrow> run ins cs s')"

section \<open>The texts of the specification\<close>

text \<open>
  What the specification says the operations write, in its own words. A value
  ``padded to the configured minimum width'' is the value's character sequence, all of it,
  padded to the attribute \<^verbatim>\<open>Width__\<close>, under the adjustment and fill character of the
  destination. The characters of a value are given by a conversion \<open>conv\<close>.
\<close>

definition spec_field :: "'v conv \<Rightarrow> OutputManager \<Rightarrow> ostream \<Rightarrow> 'v \<Rightarrow> string" where
  "spec_field conv om os v =
     pad (flags os) (fill os) (int (unat (Width om))) (conv (flags os) (precision os) v)"

text \<open>The variadic-print rule: every value but the last is followed by the separator, the
  last one by the end-of-line string; no value at all gives the end-of-line string.\<close>

fun spec_line :: "'v conv \<Rightarrow> OutputManager \<Rightarrow> ostream \<Rightarrow> 'v list \<Rightarrow> string" where
  "spec_line conv om os [] = EndOfLine om"
| "spec_line conv om os [v] = spec_field conv om os v @ EndOfLine om"
| "spec_line conv om os (v # vs) =
     spec_field conv om os v @ Separator om @ spec_line conv om os vs"

text \<open>The range-printing rule: every element is followed by the separator, the last one
  too, and the end-of-line string comes once at the end.\<close>

definition spec_range :: "'v conv \<Rightarrow> OutputManager \<Rightarrow> ostream \<Rightarrow> 'v list \<Rightarrow> string" where
  "spec_range conv om os xs =
     concat (map (\<lambda>v. spec_field conv om os v @ Separator om) xs) @ EndOfLine om"

text \<open>The unpadded characters of a value.\<close>

definition spec_text :: "'v conv \<Rightarrow> ostream \<Rightarrow> 'v \<Rightarrow> string" where
  "spec_text conv os v = fst (conv (flags os) (precision os) v) @ snd (conv (flags os) (precision os) v)"

section \<open>The texts of the code\<close>

text \<open>
  For values that are written in one formatted insertion: the characters that
  \<^verbatim>\<open>OutStream__ << std::setw(Width__) << v\<close> appends for one value, and those that a call
  of \<^verbatim>\<open>operator()\<close> and of \<^verbatim>\<open>PrintRange\<close> appends. They serve the proofs: on such
  values the functions above are shown equal to an update of the stream by these.
\<close>

definition setw_field :: "'v conv \<Rightarrow> OutputManager \<Rightarrow> ostream \<Rightarrow> 'v \<Rightarrow> string" where
  "setw_field conv om os v =
     pad (flags os) (fill os) (sint (to_int (Width om))) (conv (flags os) (precision os) v)"

fun call_text :: "'v conv \<Rightarrow> OutputManager \<Rightarrow> ostream \<Rightarrow> 'v list \<Rightarrow> string" where
  "call_text conv om os [] = pad (flags os) (fill os) (width os) ([], EndOfLine om)"
| "call_text conv om os [v] = setw_field conv om os v @ EndOfLine om"
| "call_text conv om os (v # vs) =
     setw_field conv om os v @ Separator om @ call_text conv om os vs"

definition range_text :: "'v conv \<Rightarrow> OutputManager \<Rightarrow> ostream \<Rightarrow> 'v list \<Rightarrow> string" where
  "range_text conv om os xs =
     concat (map (\<lambda>v. setw_field conv om os v @ Separator om) xs)
       @ pad (flags os) (fill os) (if xs = [] then width os else 0) ([], EndOfLine om)"

text \<open>
  The rows of \<^verbatim>\<open>FormatToColumns\<close>: the argument lists of its calls of \<^verbatim>\<open>operator()\<close>,
  one for each position of the first range, when every iterator of \<^verbatim>\<open>Others\<close> can be
  dereferenced there.
\<close>

fun rows :: "'v list \<Rightarrow> 'v list list \<Rightarrow> 'v list list" where
  "rows [] Others = []"
| "rows (x # xs) Others = (x # map hd Others) # rows xs (map tl Others)"


text \<open>The stream that an object refers to, and the calls that set the alignment.\<close>

definition destination :: "OutputManager \<times> memory \<Rightarrow> ostream" where
  "destination s = snd s (OutStream (fst s))"

fun sets_alignment :: "'v call \<Rightarrow> bool" where
  "sets_alignment (CallSetAlignment a) = True"
| "sets_alignment c = False"

text \<open>The types whose \<^verbatim>\<open>operator<<\<close> leaves the adjustment of the stream as it is.\<close>

definition keeps_adjustment :: "'v inserter \<Rightarrow> bool" where
  "keeps_adjustment ins = (\<forall>v os. flags (ins v os) \<inter> adjustfield = flags os \<inter> adjustfield)"

section \<open>Sample inputs\<close>

text \<open>
  A stream as \<^verbatim>\<open>std::basic_ios::init\<close> leaves it, an object as the default constructor
  leaves it, and the conversion of values that are strings already.
\<close>

definition init_stream :: ostream where
  "init_stream = \<lparr>chars = [], flags = {}, width = 0, precision = 6, fill = CHR '' ''\<rparr>"

definition default_om :: OutputManager where
  "default_om = \<lparr>OutStream = wcout, Separator = '' '', EndOfLine = [CHR 0x0A], Width = 0\<rparr>"

definition string_conv :: "string conv" where
  "string_conv fl p s = ([], s)"

text \<open>
  A stream on which the caller has left a field width, as after
  \<^verbatim>\<open>std::wcout << std::left << std::setw(3)\<close>.
\<close>

definition pending3 :: ostream where
  "pending3 = setw 3 (std_left init_stream)"

text \<open>The conversion of values that are given as their sign or prefix and their digits.\<close>

definition number_conv :: "charseq conv" where
  "number_conv fl p sq = sq"

text \<open>The sequences of the examples in the documentation of the class, every value as the
  characters its insertion produces.\<close>

definition numbers :: "string list" where
  "numbers = [''1'', ''2'', ''3'', ''4'', ''5'']"

definition floats :: "string list" where
  "floats = [''1.1'', ''2.1'', ''3.1'', ''4.1'', ''5.1'']"

definition words :: "string list" where
  "words = [''Cat'', ''Dog'', ''Mouse'', ''Cow'', ''Salmon'']"

text \<open>
  A type that is written in several insertions: the \<^verbatim>\<open>operator<<\<close> of
  \<^verbatim>\<open>std::error_code\<close> is \<^verbatim>\<open>os << name << ':' << value\<close>. A value is given as the strings
  of its insertions, and its characters are all of them in a row. The value is the error
  code of \<^verbatim>\<open>EINVAL\<close>; the stream has left adjustment and the fill character \<^verbatim>\<open>*\<close>; the
  object has the width 12.
\<close>

definition pieces :: "string list inserter" where
  "pieces ps os = fold insert_string ps os"

definition pieces_conv :: "string list conv" where
  "pieces_conv fl p ps = ([], concat ps)"

definition error_code :: "string list" where
  "error_code = [''generic'', '':'', ''22'']"

definition starred :: ostream where
  "starred = std_left (init_stream\<lparr>fill := CHR ''*''\<rparr>)"

definition om12 :: OutputManager where
  "om12 = SetWidth 12 default_om"

text \<open>A memory in which every stream is as \<^verbatim>\<open>std::basic_ios::init\<close> leaves it.\<close>

definition mem0 :: memory where
  "mem0 = (\<lambda>a. init_stream)"

section \<open>Formatted insertion\<close>

lemma pad_short: "w \<le> int (length (fst sq @ snd sq)) \<Longrightarrow> pad fl c w sq = fst sq @ snd sq"
  by (simp add: pad_def)

lemma pad_zero [simp]: "pad fl c 0 ([], s) = s"
  by (simp add: pad_def)

lemma length_pad: "length (pad fl c w sq) = max (nat w) (length (fst sq @ snd sq))"
  by (simp add: pad_def Let_def max_def)

lemma insert_string_eq:
  "insert_string s os =
     os\<lparr>chars := chars os @ pad (flags os) (fill os) (width os) ([], s), width := 0\<rparr>"
  by (simp add: insert_string_def insert_seq_def)

lemma insert_field:
  "insert_string s (formatted conv v (setw (to_int (Width om)) os)) =
     os\<lparr>chars := chars os @ setw_field conv om os v @ s, width := 0\<rparr>"
  by (simp add: insert_string_def formatted_def insert_seq_def setw_def setw_field_def)

lemma setw_field_upd [simp]:
  "setw_field conv om (os\<lparr>chars := a, width := b\<rparr>) v = setw_field conv om os v"
  by (simp add: setw_field_def)

lemma call_text_upd [simp]:
  "vs \<noteq> [] \<Longrightarrow>
   call_text conv om (os\<lparr>chars := a, width := b\<rparr>) vs = call_text conv om os vs"
  by (induction conv om os vs rule: call_text.induct) simp_all

text \<open>The conversion to \<^verbatim>\<open>int\<close> keeps every value below \<open>2 ^ 31\<close>.\<close>

lemma to_int_small: "unat n < 2 ^ 31 \<Longrightarrow> sint (to_int n) = int (unat n)"
proof -
  assume a: "unat n < 2 ^ 31"
  have "int (unat n) < int (2 ^ 31)"
    using a by (rule iffD2 [OF of_nat_less_iff])
  then have u: "uint n < 2 ^ 31"
    by simp
  have "uint (ucast n :: 32 word) = take_bit 32 (uint n)"
    by (simp add: unsigned_ucast_eq)
  also have "\<dots> = uint n"
    using u by (simp add: take_bit_int_eq_self)
  finally have e: "uint (ucast n :: 32 word) = uint n" .
  have "sint (ucast n :: 32 word) = signed_take_bit 31 (uint (ucast n :: 32 word))"
    by (simp add: sint_uint)
  also have "\<dots> = uint n"
    unfolding e
  proof (rule signed_take_bit_int_eq_self)
    have "- (2 ^ 31) \<le> (0::int)"
      by simp
    also have "0 \<le> uint n"
      by simp
    finally show "- (2 ^ 31) \<le> uint n" .
    show "uint n < 2 ^ 31"
      by (rule u)
  qed
  finally show ?thesis
    by (simp add: to_int_def)
qed

lemma setw_field_spec:
  "unat (Width om) < 2 ^ 31 \<Longrightarrow> setw_field conv om os v = spec_field conv om os v"
  by (simp add: setw_field_def spec_field_def to_int_small)

text \<open>It turns \<open>2 ^ 32\<close> into 0.\<close>

lemma to_int_wide: "to_int 4294967296 = 0"
  by (simp add: to_int_def)

section \<open>The operators and PrintRange as updates of the stream\<close>

lemma operator_call_eq:
  "operator_call (formatted conv) om vs os =
     os\<lparr>chars := chars os @ call_text conv om os vs, width := 0\<rparr>"
proof (induction vs arbitrary: os rule: induct_list012)
  case 1
  show ?case
    by (simp add: insert_string_eq)
next
  case (2 ToPrint)
  show ?case
    by (simp add: insert_field)
next
  case (3 ToPrint v va)
  show ?case
    by (simp add: "3.IH"(2) insert_field)
qed

lemma PrintRange_eq:
  "PrintRange (formatted conv) om xs os =
     os\<lparr>chars := chars os @ range_text conv om os xs, width := 0\<rparr>"
proof (induction xs arbitrary: os)
  case Nil
  show ?case
    by (simp add: insert_string_eq range_text_def)
next
  case (Cons x xs)
  show ?case
    by (simp add: Cons.IH insert_field range_text_def)
qed

text \<open>From here on the two functions are unfolded only where a proof asks for it.\<close>

declare operator_call.simps [simp del] PrintRange.simps [simp del]

lemma call_text_spec:
  "unat (Width om) < 2 ^ 31 \<Longrightarrow> vs \<noteq> [] \<Longrightarrow>
   call_text conv om os vs = spec_line conv om os vs"
  by (induction conv om os vs rule: call_text.induct) (simp_all add: setw_field_spec)

lemma range_text_spec:
  "unat (Width om) < 2 ^ 31 \<Longrightarrow> xs \<noteq> [] \<or> width os \<le> int (length (EndOfLine om)) \<Longrightarrow>
   range_text conv om os xs = spec_range conv om os xs"
  by (cases "xs = []") (simp_all add: range_text_def spec_range_def setw_field_spec pad_short)

section \<open>The formatters\<close>




lemma fold_PrintRange_Nil:
  "fold (\<lambda>ys. PrintRange ins om []) L (os\<lparr>chars := a, width := 0\<rparr>) =
     os\<lparr>chars := a @ concat (replicate (length L) (EndOfLine om)), width := 0\<rparr>"
  by (induction L arbitrary: a) (simp_all add: PrintRange.simps insert_string_eq)

lemma rows_of_others_eq:
  "\<forall>ys\<in>set Others. n \<le> length ys \<Longrightarrow>
   rows_of_others ins om n Others os =
     Some (fold (\<lambda>ys. PrintRange ins om (take n ys)) Others os)"
  by (induction Others arbitrary: os) simp_all

lemma FormatToColumns_rows:
  "\<forall>ys\<in>set Others. length xs \<le> length ys \<Longrightarrow>
   FormatToColumns ins om xs Others os = Some (fold (operator_call ins om) (rows xs Others) os)"
proof (induction xs arbitrary: Others os)
  case Nil
  show ?case by simp
next
  case (Cons x xs)
  have ne: "[] \<notin> set Others"
    using Cons.prems by auto
  have "\<forall>ys\<in>set (map tl Others). length xs \<le> length ys"
    using Cons.prems by auto
  then show ?case
    using ne by (simp add: Cons.IH)
qed

lemma rows_nth:
  "\<forall>ys\<in>set Others. length xs \<le> length ys \<Longrightarrow>
   rows xs Others = map (\<lambda>i. xs ! i # map (\<lambda>ys. ys ! i) Others) [0..<length xs]"
proof (induction xs arbitrary: Others)
  case Nil
  show ?case by simp
next
  case (Cons x xs)
  have ne: "\<forall>ys\<in>set Others. ys \<noteq> []"
    using Cons.prems by auto
  have le: "\<forall>ys\<in>set (map tl Others). length xs \<le> length ys"
    using Cons.prems by auto
  have hd0: "map hd Others = map (\<lambda>ys. ys ! 0) Others"
    using ne by (simp add: hd_conv_nth)
  have tl: "\<And>i. i < length xs \<Longrightarrow> map (\<lambda>ys. ys ! i) (map tl Others) = map (\<lambda>ys. ys ! Suc i) Others"
  proof -
    fix i assume i: "i < length xs"
    have "\<forall>ys\<in>set Others. tl ys ! i = ys ! Suc i"
    proof
      fix ys assume "ys \<in> set Others"
      then have "Suc (length xs) \<le> length ys"
        using Cons.prems by simp
      then have "i < length (tl ys)"
        using i by simp
      then show "tl ys ! i = ys ! Suc i"
        by (rule nth_tl)
    qed
    then show "map (\<lambda>ys. ys ! i) (map tl Others) = map (\<lambda>ys. ys ! Suc i) Others"
      by simp
  qed
  have "rows (x # xs) Others = (x # map hd Others) # rows xs (map tl Others)"
    by simp
  also have "rows xs (map tl Others) = map (\<lambda>i. xs ! i # map (\<lambda>ys. ys ! i) (map tl Others)) [0..<length xs]"
    by (rule Cons.IH [OF le])
  also have "\<dots> = map (\<lambda>i. (x # xs) ! Suc i # map (\<lambda>ys. ys ! Suc i) Others) [0..<length xs]"
    using tl by simp
  also have "\<dots> = map (\<lambda>i. (x # xs) ! i # map (\<lambda>ys. ys ! i) Others) (map Suc [0..<length xs])"
    by (simp add: comp_def)
  finally show ?case
    by (simp add: hd0 map_Suc_upt upt_conv_Cons del: upt_Suc)
qed


lemma rows_nonempty: "\<forall>r\<in>set (rows xs Others). r \<noteq> []"
  by (induction xs arbitrary: Others) simp_all

lemma fold_call_chars:
  "\<forall>r\<in>set rs. r \<noteq> [] \<Longrightarrow>
   chars (fold (operator_call (formatted conv) om) rs os) = chars os @ concat (map (call_text conv om os) rs)"
proof (induction rs arbitrary: os)
  case Nil
  show ?case by simp
next
  case (Cons r rs)
  let ?os1 = "os\<lparr>chars := chars os @ call_text conv om os r, width := 0\<rparr>"
  have ne: "\<forall>r\<in>set rs. r \<noteq> []"
    using Cons.prems by simp
  have same: "map (call_text conv om ?os1) rs = map (call_text conv om os) rs"
    using ne by (intro map_cong) simp_all
  have "chars (fold (operator_call (formatted conv) om) (r # rs) os) = chars (fold (operator_call (formatted conv) om) rs ?os1)"
    by (simp add: operator_call_eq [of conv om r os])
  also have "\<dots> = chars ?os1 @ concat (map (call_text conv om ?os1) rs)"
    by (rule Cons.IH [OF ne])
  finally show ?case
    by (simp add: same)
qed

lemma columns_advance:
  "i \<le> length xs \<Longrightarrow> \<forall>ys\<in>set Others. length xs \<le> length ys \<Longrightarrow>
   FormatToColumns ins om xs Others os =
     FormatToColumns ins om (drop i xs) (map (drop i) Others)
       (fold (operator_call ins om) (take i (rows xs Others)) os)"
proof (induction xs arbitrary: i Others os)
  case Nil
  then show ?case by simp
next
  case (Cons x xs)
  show ?case
  proof (cases i)
    case 0
    then show ?thesis by simp
  next
    case (Suc j)
    have ne: "[] \<notin> set Others"
      using Cons.prems by auto
    have le: "\<forall>ys\<in>set (map tl Others). length xs \<le> length ys"
      using Cons.prems by auto
    have j: "j \<le> length xs"
      using Cons.prems Suc by simp
    have d: "drop j \<circ> tl = (drop (Suc j) :: 'a list \<Rightarrow> 'a list)"
      by (simp add: fun_eq_iff drop_Suc)
    show ?thesis
      using ne Cons.IH [OF j le, of "operator_call ins om (x # map hd Others) os"]
      by (simp add: Suc d)
  qed
qed

section \<open>What the calls keep\<close>

lemma formatted_keeps: "keeps_adjustment (formatted conv)"
  by (simp add: keeps_adjustment_def formatted_def insert_seq_def)

lemma pieces_keeps: "keeps_adjustment pieces"
proof -
  have "flags (fold insert_string ps os) = flags os" for ps os
    by (induction ps arbitrary: os) (simp_all add: insert_string_eq)
  then show ?thesis
    by (simp add: keeps_adjustment_def pieces_def)
qed

lemma step_adjust:
  "keeps_adjustment ins \<Longrightarrow>
   flags (insert_string s (ins v (setw n os))) \<inter> adjustfield = flags os \<inter> adjustfield"
  by (simp add: keeps_adjustment_def insert_string_eq setw_def)

lemma operator_call_adjust:
  "keeps_adjustment ins \<Longrightarrow>
   flags (operator_call ins om vs os) \<inter> adjustfield = flags os \<inter> adjustfield"
proof (induction vs arbitrary: os rule: induct_list012)
  case 1
  show ?case
    by (simp add: operator_call.simps insert_string_eq)
next
  case (2 x)
  then show ?case
    by (simp add: operator_call.simps step_adjust)
next
  case (3 x y zs)
  have "flags (operator_call ins om (x # y # zs) os) \<inter> adjustfield =
      flags (insert_string (Separator om) (ins x (setw (to_int (Width om)) os))) \<inter> adjustfield"
    by (simp add: operator_call.simps "3.IH"(2) [OF "3.prems"])
  then show ?case
    by (simp add: step_adjust [OF "3.prems"])
qed

lemma PrintRange_adjust:
  "keeps_adjustment ins \<Longrightarrow>
   flags (PrintRange ins om xs os) \<inter> adjustfield = flags os \<inter> adjustfield"
proof (induction xs arbitrary: os)
  case Nil
  show ?case
    by (simp add: PrintRange.simps insert_string_eq)
next
  case (Cons x xs)
  have "flags (PrintRange ins om (x # xs) os) \<inter> adjustfield =
      flags (insert_string (Separator om) (ins x (setw (to_int (Width om)) os))) \<inter> adjustfield"
    by (simp add: PrintRange.simps Cons.IH [OF Cons.prems])
  then show ?case
    by (simp add: step_adjust [OF Cons.prems])
qed

lemma FormatToColumns_adjust:
  "keeps_adjustment ins \<Longrightarrow> FormatToColumns ins om xs Others os = Some os' \<Longrightarrow>
   flags os' \<inter> adjustfield = flags os \<inter> adjustfield"
proof (induction xs arbitrary: Others os)
  case Nil
  then show ?case by simp
next
  case (Cons x xs)
  from Cons.prems(2) have
    "FormatToColumns ins om xs (map tl Others) (operator_call ins om (x # map hd Others) os) = Some os'"
    by (simp split: if_splits)
  from Cons.IH [OF Cons.prems(1) this] show ?case
    by (simp add: operator_call_adjust [OF Cons.prems(1)])
qed

lemma rows_of_others_adjust:
  "keeps_adjustment ins \<Longrightarrow> rows_of_others ins om n Others os = Some os' \<Longrightarrow>
   flags os' \<inter> adjustfield = flags os \<inter> adjustfield"
proof (induction Others arbitrary: os)
  case Nil
  then show ?case by simp
next
  case (Cons ys Others)
  from Cons.prems(2) have
    "rows_of_others ins om n Others (PrintRange ins om (take n ys) os) = Some os'"
    by (simp split: if_splits)
  from Cons.IH [OF Cons.prems(1) this] show ?case
    by (simp add: PrintRange_adjust [OF Cons.prems(1)])
qed

lemma FormatToRows_adjust:
  "keeps_adjustment ins \<Longrightarrow> FormatToRows ins om xs Others os = Some os' \<Longrightarrow>
   flags os' \<inter> adjustfield = flags os \<inter> adjustfield"
proof -
  assume k: "keeps_adjustment ins" and e: "FormatToRows ins om xs Others os = Some os'"
  have "flags os' \<inter> adjustfield = flags (PrintRange ins om xs os) \<inter> adjustfield"
    using e unfolding FormatToRows_def by (rule rows_of_others_adjust [OF k])
  also have "\<dots> = flags os \<inter> adjustfield"
    by (rule PrintRange_adjust [OF k])
  finally show ?thesis .
qed

lemma FirstNElementsRows_adjust:
  "keeps_adjustment ins \<Longrightarrow> FirstNElementsRows ins om N xs Others os = Some os' \<Longrightarrow>
   flags os' \<inter> adjustfield = flags os \<inter> adjustfield"
  unfolding FirstNElementsRows_def
  by (simp split: if_splits add: FormatToRows_adjust)

lemma SetAlignment_kept:
  "precision (SetAlignment a os) = precision os \<and> chars (SetAlignment a os) = chars os \<and>
   width (SetAlignment a os) = width os \<and> fill (SetAlignment a os) = fill os \<and>
   flags (SetAlignment a os) - adjustfield = flags os - adjustfield"
  by (simp add: SetAlignment_def std_left_def std_right_def std_internal_def setf_def adjustfield_def
      insert_Diff_if)

lemma SetPrecision_kept:
  "flags (SetPrecision n os) = flags os \<and> chars (SetPrecision n os) = chars os \<and>
   width (SetPrecision n os) = width os \<and> fill (SetPrecision n os) = fill os"
  by (simp add: SetPrecision_def setprecision_def)

lemma SetFloatMode_kept:
  "precision (SetFloatMode m os) = precision os \<and>
   flags (SetFloatMode m os) \<inter> adjustfield = flags os \<inter> adjustfield"
  by (auto simp add: SetFloatMode_def std_fixed_def std_scientific_def setf_def unsetf_def
      adjustfield_def floatfield_def)

lemma exec_OutStream:
  "exec ins c (om, mem) = Some (om', mem') \<Longrightarrow> OutStream om' = OutStream om"
  by (cases c)
    (auto simp add: on_stream_opt_def SetWidth_def SetSeparator_def SetEndOfLine_def
      split: option.splits)

lemma exec_adjust:
  "keeps_adjustment ins \<Longrightarrow> \<not> sets_alignment c \<Longrightarrow> exec ins c (om, mem) = Some (om', mem') \<Longrightarrow>
   flags (mem' (OutStream om')) \<inter> adjustfield = flags (mem (OutStream om)) \<inter> adjustfield"
  by (cases c)
    (clarsimp simp add: on_stream_opt_def on_stream_def SetWidth_def SetSeparator_def SetEndOfLine_def
      operator_call_adjust PrintRange_adjust SetPrecision_kept SetFloatMode_kept
      FormatToColumns_adjust FormatToRows_adjust FirstNElementsRows_adjust
      split: option.splits)+

lemma run_OutStream:
  "run ins cs (om, mem) = Some (om', mem') \<Longrightarrow> OutStream om' = OutStream om"
proof (induction cs arbitrary: om mem)
  case Nil
  then show ?case by simp
next
  case (Cons c cs)
  from Cons.prems obtain om1 mem1 where
    e: "exec ins c (om, mem) = Some (om1, mem1)" and r: "run ins cs (om1, mem1) = Some (om', mem')"
    by (auto split: option.splits)
  have "OutStream om1 = OutStream om"
    using e by (rule exec_OutStream)
  then show ?case
    using Cons.IH [OF r] by simp
qed

lemma run_adjust:
  "keeps_adjustment ins \<Longrightarrow> \<forall>c\<in>set cs. \<not> sets_alignment c \<Longrightarrow>
   run ins cs (om, mem) = Some (om', mem') \<Longrightarrow>
   flags (mem' (OutStream om')) \<inter> adjustfield = flags (mem (OutStream om)) \<inter> adjustfield"
proof (induction cs arbitrary: om mem)
  case Nil
  then show ?case by simp
next
  case (Cons c cs)
  from Cons.prems(3) obtain om1 mem1 where
    e: "exec ins c (om, mem) = Some (om1, mem1)" and r: "run ins cs (om1, mem1) = Some (om', mem')"
    by (auto split: option.splits)
  have n: "\<not> sets_alignment c" and ns: "\<forall>c\<in>set cs. \<not> sets_alignment c"
    using Cons.prems(2) by simp_all
  have "flags (mem' (OutStream om')) \<inter> adjustfield = flags (mem1 (OutStream om1)) \<inter> adjustfield"
    by (rule Cons.IH [OF Cons.prems(1) ns r])
  also have "\<dots> = flags (mem (OutStream om)) \<inter> adjustfield"
    by (rule exec_adjust [OF Cons.prems(1) n e])
  finally show ?case .
qed

section \<open>The operators\<close>

text \<open>
  C8, with the condition the code needs: the call of \<^verbatim>\<open>operator()\<close> with no argument
  writes exactly the end-of-line string, no separator and no padding, when the
  destination carries no pending field width longer than that string (the width is 0 after
  every formatted insertion). Nothing else of the stream changes, except that the width is
  reset. No value is inserted, so this holds whatever the printable types are.
\<close>

theorem call_without_argument:
  "width os \<le> int (length (EndOfLine om)) \<Longrightarrow>
   operator_call ins om [] os = os\<lparr>chars := chars os @ EndOfLine om, width := 0\<rparr>"
  by (simp add: operator_call.simps insert_string_eq pad_short)

theorem call_without_argument_witness:
  "width init_stream \<le> int (length (EndOfLine default_om)) \<and>
   operator_call (formatted string_conv) default_om [] init_stream =
     init_stream\<lparr>chars := [CHR 0x0A], width := 0\<rparr>"
  using call_without_argument [of init_stream default_om "formatted string_conv"]
  by (simp add: init_stream_def default_om_def)

text \<open>
  Without the condition the end-of-line string is padded like any other string: on a
  stream with a pending width of 3 and left adjustment, the call writes a newline and two
  fill characters.
\<close>

theorem call_without_argument_counterexample:
  "chars (operator_call (formatted string_conv) default_om [] pending3) = [CHR 0x0A, CHR '' '', CHR '' ''] \<and>
   chars (operator_call (formatted string_conv) default_om [] pending3) \<noteq>
     chars pending3 @ EndOfLine default_om"
  by (simp add: operator_call.simps pending3_def default_om_def init_stream_def insert_string_def
      insert_seq_def setw_def std_left_def setf_def pad_def adjustfield_def eval_nat_numeral)

text \<open>
  C4, for values that are written in one formatted insertion each. A call of
  \<^verbatim>\<open>operator()\<close> with at least one such argument writes the first value padded to the
  configured width, then the separator, then the remaining values by the same rule, and
  the last value padded and followed by the end-of-line string. With width 0, three
  arguments give \<open>a + sep + b + sep + c + eol\<close>. The statement is for the widths that
  \<^verbatim>\<open>std::setw\<close> receives as they are; what the code makes of the others is left out.
\<close>

theorem call_with_arguments:
  assumes "unat (Width om) < 2 ^ 31" and "vs \<noteq> []"
  shows "operator_call (formatted conv) om vs os =
           os\<lparr>chars := chars os @ spec_line conv om os vs, width := 0\<rparr> \<and>
    (Width om = 0 \<longrightarrow>
       chars (operator_call (formatted conv) om [a, b, c] os) =
         chars os @ spec_text conv os a @ Separator om @ spec_text conv os b @ Separator om
           @ spec_text conv os c @ EndOfLine om)"
proof
  show "operator_call (formatted conv) om vs os =
          os\<lparr>chars := chars os @ spec_line conv om os vs, width := 0\<rparr>"
    using assms by (simp add: operator_call_eq call_text_spec)
next
  show "Width om = 0 \<longrightarrow>
       chars (operator_call (formatted conv) om [a, b, c] os) =
         chars os @ spec_text conv os a @ Separator om @ spec_text conv os b @ Separator om
           @ spec_text conv os c @ EndOfLine om"
    by (simp add: operator_call_eq setw_field_def to_int_def pad_short spec_text_def)
qed

theorem call_with_arguments_witness:
  "unat (Width default_om) < 2 ^ 31 \<and> [''a'', ''b'', ''c''] \<noteq> [] \<and> Width default_om = 0 \<and>
   chars (operator_call (formatted string_conv) default_om [''a'', ''b'', ''c''] init_stream) =
     ''a b c'' @ [CHR 0x0A]"
  using call_with_arguments
    [of default_om "[''a'', ''b'', ''c'']" string_conv init_stream "''a''" "''b''" "''c''"]
  by (simp add: default_om_def init_stream_def string_conv_def spec_text_def spec_field_def
      pad_def)

text \<open>
  The width set by \<^verbatim>\<open>std::setw\<close> is that of the next insertion only. A value that is
  written in several insertions has its first one padded, not the whole: the error code,
  whose characters are \<^verbatim>\<open>generic:22\<close>, is written at width 12 as \<^verbatim>\<open>generic*****:22\<close>,
  where the rule gives \<^verbatim>\<open>generic:22**\<close>.
\<close>

lemma pieces_error_code:
  "pieces error_code (setw n os) =
     os\<lparr>chars := chars os @ pad (flags os) (fill os) (sint n) ([], ''generic'') @ '':22'',
        width := 0\<rparr>"
  by (simp add: pieces_def error_code_def insert_string_eq setw_def)

lemma starred_fields:
  "flags starred \<inter> adjustfield = {left}" "fill starred = CHR ''*''" "chars starred = []"
  "precision starred = 6"
  by (simp_all add: starred_def std_left_def setf_def init_stream_def adjustfield_def)

lemma to_int_12: "sint (to_int 12) = 12" "sint (to_int 0) = 0"
  by (simp_all add: to_int_def)

lemma replicate_2_5: "replicate 2 c = [c, c]" "replicate 5 c = [c, c, c, c, c]"
  by (simp_all add: eval_nat_numeral)

theorem call_with_arguments_counterexample:
  "chars (operator_call pieces default_om [error_code] starred) = ''generic:22'' @ [CHR 0x0A] \<and>
   chars (operator_call pieces om12 [error_code] starred) = ''generic*****:22'' @ [CHR 0x0A] \<and>
   spec_line pieces_conv om12 starred [error_code] = ''generic:22**'' @ [CHR 0x0A] \<and>
   operator_call pieces om12 [error_code] starred \<noteq>
     starred\<lparr>chars := chars starred @ spec_line pieces_conv om12 starred [error_code],
        width := 0\<rparr>"
proof (intro conjI)
  show "chars (operator_call pieces default_om [error_code] starred) = ''generic:22'' @ [CHR 0x0A]"
    by (simp add: operator_call.simps pieces_error_code insert_string_eq default_om_def
        to_int_12 starred_fields)
  show c: "chars (operator_call pieces om12 [error_code] starred) = ''generic*****:22'' @ [CHR 0x0A]"
    by (simp add: operator_call.simps pieces_error_code insert_string_eq om12_def SetWidth_def
        default_om_def to_int_12 pad_def starred_fields replicate_2_5)
  show s: "spec_line pieces_conv om12 starred [error_code] = ''generic:22**'' @ [CHR 0x0A]"
    by (simp add: spec_field_def pieces_conv_def error_code_def om12_def SetWidth_def
        default_om_def pad_def starred_fields replicate_2_5)
  show "operator_call pieces om12 [error_code] starred \<noteq>
     starred\<lparr>chars := chars starred @ spec_line pieces_conv om12 starred [error_code],
        width := 0\<rparr>"
  proof
    assume "operator_call pieces om12 [error_code] starred =
      starred\<lparr>chars := chars starred @ spec_line pieces_conv om12 starred [error_code],
        width := 0\<rparr>"
    then have "chars (operator_call pieces om12 [error_code] starred) =
        chars starred @ spec_line pieces_conv om12 starred [error_code]"
      by simp
    then show False
      unfolding c s by (simp add: starred_fields)
  qed
qed

section \<open>Ranges, columns and rows\<close>

text \<open>
  C3, for elements that are written in one formatted insertion each, and for a sequence
  that is not empty or a destination without a pending field width longer than the
  end-of-line string. \<^verbatim>\<open>PrintRange\<close> writes every element padded to the configured
  width and followed by the separator, the last one too, and then the end-of-line string
  once. With the default separator, end-of-line string and width that is
  \<open>S[0] + " " + ... + S[n-1] + " " + "\n"\<close>. The statement is for the widths that
  \<^verbatim>\<open>std::setw\<close> receives as they are; what the code makes of the others is left out.
\<close>

theorem PrintRange_line:
  assumes "unat (Width om) < 2 ^ 31"
    and "xs \<noteq> [] \<or> width os \<le> int (length (EndOfLine om))"
  shows "PrintRange (formatted conv) om xs os =
           os\<lparr>chars := chars os @ spec_range conv om os xs, width := 0\<rparr> \<and>
    (Separator om = '' '' \<and> EndOfLine om = [CHR 0x0A] \<and> Width om = 0 \<longrightarrow>
       chars (PrintRange (formatted conv) om xs os) =
         chars os @ concat (map (\<lambda>v. spec_text conv os v @ '' '') xs) @ [CHR 0x0A])"
proof -
  have a: "PrintRange (formatted conv) om xs os = os\<lparr>chars := chars os @ spec_range conv om os xs, width := 0\<rparr>"
    using assms by (simp add: PrintRange_eq range_text_spec)
  have "Width om = 0 \<Longrightarrow> spec_field conv om os = spec_text conv os"
    by (simp add: fun_eq_iff spec_field_def spec_text_def pad_short)
  then have "Separator om = '' '' \<and> EndOfLine om = [CHR 0x0A] \<and> Width om = 0 \<longrightarrow>
       chars (PrintRange (formatted conv) om xs os) =
         chars os @ concat (map (\<lambda>v. spec_text conv os v @ '' '') xs) @ [CHR 0x0A]"
    by (simp add: a spec_range_def)
  with a show ?thesis by blast
qed

theorem PrintRange_line_witness:
  "unat (Width default_om) < 2 ^ 31 \<and> numbers \<noteq> [] \<and>
   chars (PrintRange (formatted string_conv) default_om numbers init_stream) = ''1 2 3 4 5 '' @ [CHR 0x0A]"
  using PrintRange_line [of default_om numbers init_stream string_conv]
  by (simp add: default_om_def init_stream_def string_conv_def spec_text_def numbers_def
      spec_range_def spec_field_def pad_def)

text \<open>
  On an empty sequence the end-of-line string is the first insertion and takes the width
  the caller left on the stream. And an element that is written in several insertions has
  its first one padded, not the whole.
\<close>

theorem PrintRange_line_counterexample:
  "chars (PrintRange (formatted string_conv) default_om [] pending3) =
     [CHR 0x0A, CHR '' '', CHR '' ''] \<and>
   PrintRange (formatted string_conv) default_om [] pending3 \<noteq>
     pending3\<lparr>chars := chars pending3 @ spec_range string_conv default_om pending3 [],
        width := 0\<rparr> \<and>
   chars (PrintRange pieces om12 [error_code] starred) = ''generic*****:22 '' @ [CHR 0x0A] \<and>
   spec_range pieces_conv om12 starred [error_code] = ''generic:22** '' @ [CHR 0x0A] \<and>
   PrintRange pieces om12 [error_code] starred \<noteq>
     starred\<lparr>chars := chars starred @ spec_range pieces_conv om12 starred [error_code],
        width := 0\<rparr>"
proof (intro conjI)
  show c1: "chars (PrintRange (formatted string_conv) default_om [] pending3) =
      [CHR 0x0A, CHR '' '', CHR '' '']"
    by (simp add: PrintRange.simps pending3_def default_om_def init_stream_def insert_string_def
        insert_seq_def setw_def std_left_def setf_def pad_def adjustfield_def eval_nat_numeral)
  have "chars (pending3\<lparr>chars := chars pending3 @ spec_range string_conv default_om pending3 [],
      width := 0\<rparr>) = [CHR 0x0A]"
    by (simp add: spec_range_def pending3_def default_om_def init_stream_def setw_def std_left_def
        setf_def)
  then show "PrintRange (formatted string_conv) default_om [] pending3 \<noteq>
     pending3\<lparr>chars := chars pending3 @ spec_range string_conv default_om pending3 [],
        width := 0\<rparr>"
    using c1 by auto
  show c2: "chars (PrintRange pieces om12 [error_code] starred) = ''generic*****:22 '' @ [CHR 0x0A]"
    by (simp add: PrintRange.simps pieces_error_code insert_string_eq om12_def SetWidth_def
        default_om_def to_int_12 pad_def starred_fields replicate_2_5)
  show s2: "spec_range pieces_conv om12 starred [error_code] = ''generic:22** '' @ [CHR 0x0A]"
    by (simp add: spec_range_def spec_field_def pieces_conv_def error_code_def om12_def
        SetWidth_def default_om_def pad_def starred_fields replicate_2_5)
  show "PrintRange pieces om12 [error_code] starred \<noteq>
     starred\<lparr>chars := chars starred @ spec_range pieces_conv om12 starred [error_code],
        width := 0\<rparr>"
  proof
    assume "PrintRange pieces om12 [error_code] starred =
      starred\<lparr>chars := chars starred @ spec_range pieces_conv om12 starred [error_code],
        width := 0\<rparr>"
    then have "chars (PrintRange pieces om12 [error_code] starred) =
        chars starred @ spec_range pieces_conv om12 starred [error_code]"
      by simp
    then show False
      unfolding c2 s2 by (simp add: starred_fields)
  qed
qed

text \<open>
  C1, for elements that are written in one formatted insertion each. When every sequence
  of \<^verbatim>\<open>Others\<close> is at least as long as the first range, of length \<open>n\<close>,
  \<^verbatim>\<open>FormatToColumns\<close> returns and has written \<open>n\<close> lines; line \<open>i\<close> holds element \<open>i\<close>
  of the first range and element \<open>i\<close> of every other sequence in the order of the
  arguments, each padded to the configured width, joined by the separator and ended by the
  end-of-line string. After \<open>i\<close> rows the loop goes on with every iterator advanced by
  \<open>i\<close>. The statement is for the widths that \<^verbatim>\<open>std::setw\<close> receives as they are; what
  the code makes of the others is left out.
\<close>

theorem FormatToColumns_lines:
  assumes "unat (Width om) < 2 ^ 31" and "\<forall>ys\<in>set Others. length xs \<le> length ys"
  shows "(\<exists>os'. FormatToColumns (formatted conv) om xs Others os = Some os' \<and>
            chars os' = chars os @ concat
              (map (\<lambda>i. spec_line conv om os (xs ! i # map (\<lambda>ys. ys ! i) Others)) [0..<length xs]))
    \<and> (\<forall>i\<le>length xs. \<exists>os'.
            chars os' = chars os @ concat
              (map (\<lambda>k. spec_line conv om os (xs ! k # map (\<lambda>ys. ys ! k) Others)) [0..<i]) \<and>
            FormatToColumns (formatted conv) om xs Others os =
              FormatToColumns (formatted conv) om (drop i xs) (map (drop i) Others) os')"
proof -
  let ?row = "\<lambda>i. xs ! i # map (\<lambda>ys. ys ! i) Others"
  have spec: "\<And>i. call_text conv om os (?row i) = spec_line conv om os (?row i)"
    using assms(1) by (simp add: call_text_spec)
  have rows: "rows xs Others = map ?row [0..<length xs]"
    using assms(2) by (rule rows_nth)
  have ch: "\<And>n. chars (fold (operator_call (formatted conv) om) (map ?row [0..<n]) os) =
      chars os @ concat (map (\<lambda>i. spec_line conv om os (?row i)) [0..<n])"
    by (subst fold_call_chars) (simp_all add: comp_def spec)
  have a: "\<exists>os'. FormatToColumns (formatted conv) om xs Others os = Some os' \<and>
            chars os' = chars os @ concat (map (\<lambda>i. spec_line conv om os (?row i)) [0..<length xs])"
    using FormatToColumns_rows [OF assms(2), of "formatted conv" om os] ch [of "length xs"]
    by (simp add: rows)
  have b: "\<forall>i\<le>length xs. \<exists>os'.
            chars os' = chars os @ concat (map (\<lambda>k. spec_line conv om os (?row k)) [0..<i]) \<and>
            FormatToColumns (formatted conv) om xs Others os =
              FormatToColumns (formatted conv) om (drop i xs) (map (drop i) Others) os'"
  proof (intro allI impI)
    fix i assume i: "i \<le> length xs"
    have t: "take i (rows xs Others) = map ?row [0..<i]"
      using i by (simp add: rows take_map min_def)
    show "\<exists>os'. chars os' = chars os @ concat (map (\<lambda>k. spec_line conv om os (?row k)) [0..<i]) \<and>
            FormatToColumns (formatted conv) om xs Others os =
              FormatToColumns (formatted conv) om (drop i xs) (map (drop i) Others) os'"
      using columns_advance [OF i assms(2), of "formatted conv" om os] ch [of i]
      by (auto simp add: t)
  qed
  from a b show ?thesis by blast
qed

theorem FormatToColumns_lines_witness:
  "unat (Width default_om) < 2 ^ 31 \<and>
   map_option chars (FormatToColumns (formatted string_conv) default_om numbers [floats, words] init_stream) =
     Some (''1 1.1 Cat'' @ [CHR 0x0A] @ ''2 2.1 Dog'' @ [CHR 0x0A] @ ''3 3.1 Mouse'' @ [CHR 0x0A]
       @ ''4 4.1 Cow'' @ [CHR 0x0A] @ ''5 5.1 Salmon'' @ [CHR 0x0A])"
proof -
  have w: "unat (Width default_om) < 2 ^ 31"
    by (simp add: default_om_def)
  have l: "\<forall>ys\<in>set [floats, words]. length numbers \<le> length ys"
    by (simp add: numbers_def floats_def words_def)
  have n: "[0..<length numbers] = [0, 1, 2, 3, 4]"
    by (simp add: numbers_def upt_rec)
  from FormatToColumns_lines [OF w l, of string_conv init_stream]
  obtain os' where
    "FormatToColumns (formatted string_conv) default_om numbers [floats, words] init_stream = Some os'"
    and "chars os' = chars init_stream @ concat
      (map (\<lambda>i. spec_line string_conv default_om init_stream
         (numbers ! i # map (\<lambda>ys. ys ! i) [floats, words])) [0..<length numbers])"
    by blast
  then show ?thesis
    using w unfolding n
    by (simp add: numbers_def floats_def words_def spec_field_def pad_def string_conv_def
        default_om_def init_stream_def)
qed

text \<open>
  A column of values that are written in several insertions has the first insertion of
  every value padded, not the values.
\<close>

theorem FormatToColumns_lines_counterexample:
  "map_option chars (FormatToColumns pieces om12 [error_code] [[error_code]] starred) =
     Some (''generic*****:22 generic*****:22'' @ [CHR 0x0A]) \<and>
   concat (map (\<lambda>i. spec_line pieces_conv om12 starred
       ([error_code] ! i # map (\<lambda>ys. ys ! i) [[error_code]])) [0..<length [error_code]]) =
     ''generic:22** generic:22**'' @ [CHR 0x0A] \<and>
   map_option chars (FormatToColumns pieces om12 [error_code] [[error_code]] starred) \<noteq>
     Some (chars starred @ concat (map (\<lambda>i. spec_line pieces_conv om12 starred
       ([error_code] ! i # map (\<lambda>ys. ys ! i) [[error_code]])) [0..<length [error_code]]))"
proof (intro conjI)
  show c: "map_option chars (FormatToColumns pieces om12 [error_code] [[error_code]] starred) =
     Some (''generic*****:22 generic*****:22'' @ [CHR 0x0A])"
    by (simp add: operator_call.simps pieces_error_code insert_string_eq om12_def SetWidth_def
        default_om_def to_int_12 pad_def starred_fields replicate_2_5)
  show s: "concat (map (\<lambda>i. spec_line pieces_conv om12 starred
       ([error_code] ! i # map (\<lambda>ys. ys ! i) [[error_code]])) [0..<length [error_code]]) =
     ''generic:22** generic:22**'' @ [CHR 0x0A]"
    by (simp add: spec_field_def pieces_conv_def error_code_def om12_def SetWidth_def
        default_om_def pad_def starred_fields replicate_2_5)
  show "map_option chars (FormatToColumns pieces om12 [error_code] [[error_code]] starred) \<noteq>
     Some (chars starred @ concat (map (\<lambda>i. spec_line pieces_conv om12 starred
       ([error_code] ! i # map (\<lambda>ys. ys ! i) [[error_code]])) [0..<length [error_code]]))"
    unfolding c s by (simp add: starred_fields)
qed



text \<open>
  C6, with the condition the code needs for \<open>n = 0\<close>. When the first sequence and every
  sequence of \<^verbatim>\<open>Others\<close> have at least \<open>n\<close> elements, \<^verbatim>\<open>FirstNElementsRows\<close> is
  \<^verbatim>\<open>FormatToRows\<close> on the first \<open>n\<close> elements of the first sequence: it returns and has
  printed the first \<open>n\<close> elements of every sequence, one line each. For \<open>n = 0\<close>, on a
  destination without a pending field width longer than the end-of-line string, that is
  the end-of-line string once for every sequence. All of it holds whatever the printable
  types are.
\<close>

theorem FirstNElementsRows_rows:
  assumes "unat N \<le> length xs" and "\<forall>ys\<in>set Others. unat N \<le> length ys"
  shows "FirstNElementsRows ins om N xs Others os =
           FormatToRows ins om (take (unat N) xs) Others os
    \<and> FirstNElementsRows ins om N xs Others os =
           Some (fold (\<lambda>ys. PrintRange ins om (take (unat N) ys)) Others
                   (PrintRange ins om (take (unat N) xs) os))
    \<and> (N = 0 \<and> width os \<le> int (length (EndOfLine om)) \<longrightarrow>
          (\<exists>os'. FirstNElementsRows ins om N xs Others os = Some os' \<and>
             chars os' = chars os @ concat (replicate (1 + length Others) (EndOfLine om))))"
proof -
  have l: "length (take (unat N) xs) = unat N"
    using assms(1) by simp
  have a: "FirstNElementsRows ins om N xs Others os =
           FormatToRows ins om (take (unat N) xs) Others os"
    using assms(1) by (simp add: FirstNElementsRows_def)
  have b: "FormatToRows ins om (take (unat N) xs) Others os =
           Some (fold (\<lambda>ys. PrintRange ins om (take (unat N) ys)) Others
                   (PrintRange ins om (take (unat N) xs) os))"
    using assms by (simp add: FormatToRows_def rows_of_others_eq min_def)
  have c: "N = 0 \<and> width os \<le> int (length (EndOfLine om)) \<longrightarrow>
          (\<exists>os'. FirstNElementsRows ins om N xs Others os = Some os' \<and>
             chars os' = chars os @ concat (replicate (1 + length Others) (EndOfLine om)))"
  proof (intro impI, elim conjE)
    assume n: "N = 0" and w: "width os \<le> int (length (EndOfLine om))"
    have "FirstNElementsRows ins om N xs Others os =
        Some (fold (\<lambda>ys. PrintRange ins om []) Others (PrintRange ins om [] os))"
      using a b by (simp add: n)
    also have "\<dots> = Some (os\<lparr>chars := chars os @ EndOfLine om
        @ concat (replicate (length Others) (EndOfLine om)), width := 0\<rparr>)"
      using w by (simp add: PrintRange.simps insert_string_eq fold_PrintRange_Nil pad_short)
    finally show "\<exists>os'. FirstNElementsRows ins om N xs Others os = Some os' \<and>
        chars os' = chars os @ concat (replicate (1 + length Others) (EndOfLine om))"
      by simp
  qed
  from a b c show ?thesis
    by simp
qed

theorem FirstNElementsRows_rows_witness:
  "unat (3 :: size_t) \<le> length numbers \<and>
   map_option chars (FirstNElementsRows (formatted string_conv) default_om 3 numbers [floats, words] init_stream) =
     Some (''1 2 3 '' @ [CHR 0x0A] @ ''1.1 2.1 3.1 '' @ [CHR 0x0A] @ ''Cat Dog Mouse '' @ [CHR 0x0A]) \<and>
   width init_stream \<le> int (length (EndOfLine default_om)) \<and>
   map_option chars (FirstNElementsRows (formatted string_conv) default_om 0 numbers [floats, words] init_stream) =
     Some ([CHR 0x0A] @ [CHR 0x0A] @ [CHR 0x0A])"
proof -
  have l3: "unat (3 :: size_t) \<le> length numbers"
    by (simp add: numbers_def)
  have o3: "\<forall>ys\<in>set [floats, words]. unat (3 :: size_t) \<le> length ys"
    by (simp add: floats_def words_def)
  have l0: "unat (0 :: size_t) \<le> length numbers"
    by simp
  have o0: "\<forall>ys\<in>set [floats, words]. unat (0 :: size_t) \<le> length ys"
    by simp
  have w: "width init_stream \<le> int (length (EndOfLine default_om))"
    by (simp add: init_stream_def)
  from FirstNElementsRows_rows [OF l3 o3, of "formatted string_conv" default_om init_stream]
  have "FirstNElementsRows (formatted string_conv) default_om 3 numbers [floats, words] init_stream =
      Some (fold (\<lambda>ys. PrintRange (formatted string_conv) default_om (take (unat (3 :: size_t)) ys)) [floats, words]
        (PrintRange (formatted string_conv) default_om (take (unat (3 :: size_t)) numbers) init_stream))"
    by blast
  then have a: "map_option chars
      (FirstNElementsRows (formatted string_conv) default_om 3 numbers [floats, words] init_stream) =
     Some (''1 2 3 '' @ [CHR 0x0A] @ ''1.1 2.1 3.1 '' @ [CHR 0x0A] @ ''Cat Dog Mouse '' @ [CHR 0x0A])"
    by (simp add: numbers_def floats_def words_def PrintRange_eq range_text_def setw_field_def
        to_int_def pad_short string_conv_def default_om_def init_stream_def)
  from FirstNElementsRows_rows [OF l0 o0, of "formatted string_conv" default_om init_stream] w
  obtain os' where
    "FirstNElementsRows (formatted string_conv) default_om 0 numbers [floats, words] init_stream = Some os'"
    and "chars os' = chars init_stream @ concat (replicate (1 + length [floats, words]) (EndOfLine default_om))"
    by blast
  then have b: "map_option chars
      (FirstNElementsRows (formatted string_conv) default_om 0 numbers [floats, words] init_stream) =
     Some ([CHR 0x0A] @ [CHR 0x0A] @ [CHR 0x0A])"
    by (simp add: init_stream_def default_om_def eval_nat_numeral)
  from l3 a w b show ?thesis
    by blast
qed

text \<open>
  For \<open>n = 0\<close> the first line is the first insertion of the call: on a stream with a
  pending width of 3 it is a newline and two fill characters.
\<close>

theorem FirstNElementsRows_rows_counterexample:
  "map_option chars (FirstNElementsRows (formatted string_conv) default_om 0 [''a''] [[''b'']] pending3) =
     Some ([CHR 0x0A, CHR '' '', CHR '' ''] @ [CHR 0x0A]) \<and>
   map_option chars (FirstNElementsRows (formatted string_conv) default_om 0 [''a''] [[''b'']] pending3) \<noteq>
     Some (chars pending3 @ concat (replicate (1 + length [[''b'']]) (EndOfLine default_om)))"
  by (simp add: FirstNElementsRows_def FormatToRows_def PrintRange.simps pending3_def default_om_def init_stream_def
      insert_string_def insert_seq_def setw_def std_left_def setf_def pad_def adjustfield_def
      eval_nat_numeral)

text \<open>
  C10. On an empty first range \<^verbatim>\<open>FormatToColumns\<close> leaves the stream as it is, whatever
  the other sequences are: it writes no line and no end-of-line string. \<^verbatim>\<open>PrintRange\<close>
  and \<^verbatim>\<open>FormatToRows\<close> on an empty first range still insert the end-of-line string:
  \<^verbatim>\<open>PrintRange\<close> once, \<^verbatim>\<open>FormatToRows\<close> once and then once more for every other
  sequence. No value is inserted, so this holds whatever the printable types are.
\<close>

theorem empty_first_range:
  "FormatToColumns ins om [] Others os = Some os
   \<and> PrintRange ins om [] os =
       os\<lparr>chars := chars os @ pad (flags os) (fill os) (width os) ([], EndOfLine om), width := 0\<rparr>
   \<and> FormatToRows ins om [] Others os =
       Some (os\<lparr>chars := chars os @ pad (flags os) (fill os) (width os) ([], EndOfLine om)
                     @ concat (replicate (length Others) (EndOfLine om)),
                width := 0\<rparr>)
   \<and> (\<exists>pre post. pad (flags os) (fill os) (width os) ([], EndOfLine om) = pre @ EndOfLine om @ post)"
proof (intro conjI)
  show "FormatToColumns ins om [] Others os = Some os"
    by simp
  show p: "PrintRange ins om [] os =
       os\<lparr>chars := chars os @ pad (flags os) (fill os) (width os) ([], EndOfLine om), width := 0\<rparr>"
    by (simp add: PrintRange.simps insert_string_eq)
  have "rows_of_others ins om 0 Others (PrintRange ins om [] os) =
      Some (fold (\<lambda>ys. PrintRange ins om (take 0 ys)) Others (PrintRange ins om [] os))"
    by (rule rows_of_others_eq) simp
  then show "FormatToRows ins om [] Others os =
       Some (os\<lparr>chars := chars os @ pad (flags os) (fill os) (width os) ([], EndOfLine om)
                     @ concat (replicate (length Others) (EndOfLine om)),
                width := 0\<rparr>)"
    by (simp add: FormatToRows_def PrintRange.simps insert_string_eq fold_PrintRange_Nil)
  show "\<exists>pre post. pad (flags os) (fill os) (width os) ([], EndOfLine om) = pre @ EndOfLine om @ post"
  proof (cases "flags os \<inter> adjustfield = {left}")
    case True
    then have "pad (flags os) (fill os) (width os) ([], EndOfLine om) =
        [] @ EndOfLine om @ replicate (nat (width os) - length (EndOfLine om)) (fill os)"
      by (simp add: pad_def)
    then show ?thesis by blast
  next
    case False
    then have "pad (flags os) (fill os) (width os) ([], EndOfLine om) =
        replicate (nat (width os) - length (EndOfLine om)) (fill os) @ EndOfLine om @ []"
      by (simp add: pad_def Let_def)
    then show ?thesis by blast
  qed
qed

section \<open>The setters, the constructors and the reference\<close>

lemma SetAlignment_adjust:
  "flags (SetAlignment a os) \<inter> adjustfield =
     (if a = 0 then {internal} else if 0 < sint a then {left} else {right})"
  by (simp add: SetAlignment_def std_left_def std_right_def std_internal_def setf_def
      adjustfield_def Int_insert_left)

lemma sint_zero: "(sint a = 0) = (a = 0)"
  by (simp add: signed_eq_0_iff)

lemma construct_left:
  "flags (destination (construct out sep eol mem)) \<inter> adjustfield = {left}"
  by (simp add: construct_def destination_def on_stream_def Let_def SetAlignment_adjust)

lemma SetPrecision_small:
  "unat n < 2 ^ 31 \<Longrightarrow> precision (SetPrecision n os) = int (unat n)"
  by (simp add: SetPrecision_def setprecision_def to_int_small)

text \<open>
  C5 at \<^verbatim>\<open>SetPrecision(4294967296)\<close>. The parameter is of type \<^verbatim>\<open>size_t\<close> and
  \<^verbatim>\<open>std::setprecision\<close> takes an \<^verbatim>\<open>int\<close>: the call sets the precision 0 on the
  destination, not 4294967296, on every stream and for every object, against the
  documentation of the parameter as the number of decimal places.
\<close>

theorem SetPrecision_narrowed:
  "precision (SetPrecision 4294967296 os) = 0 \<and>
   precision (SetPrecision 4294967296 os) \<noteq> int (unat (4294967296 :: size_t)) \<and>
   map_option (\<lambda>s. precision (destination s))
     (run ins [CallSetPrecision 4294967296] (om, mem)) = Some 0"
  by (simp add: SetPrecision_def setprecision_def to_int_wide destination_def on_stream_def)

text \<open>
  C7. \<^verbatim>\<open>SetAlignment\<close> with 0 sets \<^verbatim>\<open>internal\<close> adjustment (the fill characters go
  between the sign or prefix and the rest), with a positive value \<^verbatim>\<open>left\<close> adjustment
  (fill characters after the value), with a negative value \<^verbatim>\<open>right\<close> adjustment (fill
  characters before the value). The call changes the destination at once, and the
  adjustment stays through every sequence of calls that has no other \<^verbatim>\<open>SetAlignment\<close>
  and prints values whose \<^verbatim>\<open>operator<<\<close> leaves the adjustment alone. Each of the four
  constructors leaves the destination with \<^verbatim>\<open>left\<close> adjustment.
\<close>

theorem SetAlignment_modes:
  "(sint a = 0 \<longrightarrow> flags (SetAlignment a os) \<inter> adjustfield = {internal} \<and>
        pad (flags (SetAlignment a os)) c w (p, d) = p @ replicate (nat w - length (p @ d)) c @ d)
   \<and> (0 < sint a \<longrightarrow> flags (SetAlignment a os) \<inter> adjustfield = {left} \<and>
        pad (flags (SetAlignment a os)) c w (p, d) = p @ d @ replicate (nat w - length (p @ d)) c)
   \<and> (sint a < 0 \<longrightarrow> flags (SetAlignment a os) \<inter> adjustfield = {right} \<and>
        pad (flags (SetAlignment a os)) c w (p, d) = replicate (nat w - length (p @ d)) c @ p @ d)
   \<and> exec ins (CallSetAlignment a) (om, mem) = Some (om, on_stream om (SetAlignment a) mem)
   \<and> (\<forall>cs om' mem'.
          keeps_adjustment ins \<and> (\<forall>k\<in>set cs. \<not> sets_alignment k) \<and>
          run ins cs (om, on_stream om (SetAlignment a) mem) = Some (om', mem') \<longrightarrow>
          flags (destination (om', mem')) \<inter> adjustfield =
            flags (SetAlignment a (destination (om, mem))) \<inter> adjustfield)
   \<and> flags (destination (OutputManager_default mem)) \<inter> adjustfield = {left}
   \<and> flags (destination (OutputManager_stream out mem)) \<inter> adjustfield = {left}
   \<and> flags (destination (OutputManager_strings sep eol mem)) \<inter> adjustfield = {left}
   \<and> flags (destination (OutputManager_all out sep eol mem)) \<inter> adjustfield = {left}"
proof (intro conjI allI impI)
  assume z: "sint a = 0"
  then have a0: "a = 0" by (simp add: sint_zero)
  show i: "flags (SetAlignment a os) \<inter> adjustfield = {internal}"
    by (simp add: SetAlignment_adjust a0)
  show "pad (flags (SetAlignment a os)) c w (p, d) = p @ replicate (nat w - length (p @ d)) c @ d"
    by (simp add: pad_def i)
next
  assume z: "0 < sint a"
  then have a0: "a \<noteq> 0" by auto
  show i: "flags (SetAlignment a os) \<inter> adjustfield = {left}"
    using z by (simp add: SetAlignment_adjust a0)
  show "pad (flags (SetAlignment a os)) c w (p, d) = p @ d @ replicate (nat w - length (p @ d)) c"
    by (simp add: pad_def i)
next
  assume z: "sint a < 0"
  then have a0: "a \<noteq> 0" by auto
  show i: "flags (SetAlignment a os) \<inter> adjustfield = {right}"
    using z by (simp add: SetAlignment_adjust a0)
  show "pad (flags (SetAlignment a os)) c w (p, d) = replicate (nat w - length (p @ d)) c @ p @ d"
    by (simp add: pad_def i)
next
  show "exec ins (CallSetAlignment a) (om, mem) = Some (om, on_stream om (SetAlignment a) mem)"
    by simp
next
  fix cs :: "'a call list" and om' mem'
  assume h: "keeps_adjustment ins \<and> (\<forall>k\<in>set cs. \<not> sets_alignment k) \<and>
          run ins cs (om, on_stream om (SetAlignment a) mem) = Some (om', mem')"
  then have "flags (mem' (OutStream om')) \<inter> adjustfield =
      flags (on_stream om (SetAlignment a) mem (OutStream om)) \<inter> adjustfield"
    using run_adjust [of ins cs om "on_stream om (SetAlignment a) mem" om' mem'] by blast
  then show "flags (destination (om', mem')) \<inter> adjustfield =
            flags (SetAlignment a (destination (om, mem))) \<inter> adjustfield"
    by (simp add: destination_def on_stream_def)
next
  show "flags (destination (OutputManager_default mem)) \<inter> adjustfield = {left}"
    by (simp add: OutputManager_default_def construct_left)
  show "flags (destination (OutputManager_stream out mem)) \<inter> adjustfield = {left}"
    by (simp add: OutputManager_stream_def construct_left)
  show "flags (destination (OutputManager_strings sep eol mem)) \<inter> adjustfield = {left}"
    by (simp add: OutputManager_strings_def construct_left)
  show "flags (destination (OutputManager_all out sep eol mem)) \<inter> adjustfield = {left}"
    by (simp add: OutputManager_all_def construct_left)
qed

theorem SetAlignment_modes_witness:
  "sint (0 :: cint) = 0 \<and> 0 < sint (1 :: cint) \<and> sint (- 1 :: cint) < 0 \<and>
   chars (operator_call (formatted number_conv) (SetWidth 6 default_om) [(''-'', ''42'')]
     (SetAlignment 0 init_stream)) = ''-   42'' @ [CHR 0x0A] \<and>
   chars (operator_call (formatted number_conv) (SetWidth 6 default_om) [(''-'', ''42'')]
     (SetAlignment 1 init_stream)) = ''-42   '' @ [CHR 0x0A] \<and>
   chars (operator_call (formatted number_conv) (SetWidth 6 default_om) [(''-'', ''42'')]
     (SetAlignment (- 1) init_stream)) = ''   -42'' @ [CHR 0x0A] \<and>
   keeps_adjustment pieces \<and>
   map_option (\<lambda>s. flags (destination s) \<inter> adjustfield)
     (run pieces
        [CallSetAlignment 0, CallSetWidth 8, CallSetFloatMode 1, Call [error_code],
         CallPrintRange [error_code, error_code]]
        (default_om, mem0)) = Some {internal} \<and>
   flags (destination (OutputManager_default mem0)) \<inter> adjustfield = {left}"
proof -
  have s0: "sint (0 :: cint) = 0" and s1: "0 < sint (1 :: cint)" and s2: "sint (- 1 :: cint) < 0"
    by simp_all
  have w: "sint (to_int (Width (SetWidth 6 default_om))) = 6"
    by (simp add: SetWidth_def to_int_small)
  note m0 = SetAlignment_modes [where a = 0 and os = init_stream and c = "CHR '' ''" and w = 6
      and p = "''-''" and d = "''42''" and ins = pieces and om = default_om and mem = mem0]
  note m1 = SetAlignment_modes [where a = 1 and os = init_stream and c = "CHR '' ''" and w = 6
      and p = "''-''" and d = "''42''" and ins = pieces and om = default_om and mem = mem0]
  note m2 = SetAlignment_modes [where a = "- 1" and os = init_stream and c = "CHR '' ''" and w = 6
      and p = "''-''" and d = "''42''" and ins = pieces and om = default_om and mem = mem0]
  have f: "fill (SetAlignment a init_stream) = CHR '' ''"
      "precision (SetAlignment a init_stream) = 6"
      "chars (SetAlignment a init_stream) = []" for a
    by (simp_all add: SetAlignment_kept init_stream_def)
  have p0: "pad (flags (SetAlignment 0 init_stream)) (CHR '' '') 6 (''-'', ''42'') = ''-   42''"
    using m0 s0 by (simp add: eval_nat_numeral)
  have p1: "pad (flags (SetAlignment 1 init_stream)) (CHR '' '') 6 (''-'', ''42'') = ''-42   ''"
    using m1 s1 by (simp add: eval_nat_numeral)
  have p2: "pad (flags (SetAlignment (- 1) init_stream)) (CHR '' '') 6 (''-'', ''42'') = ''   -42''"
    using m2 s2 by (simp add: eval_nat_numeral)
  have c: "chars (operator_call (formatted number_conv) (SetWidth 6 default_om) [(''-'', ''42'')]
     (SetAlignment a init_stream)) =
       pad (flags (SetAlignment a init_stream)) (CHR '' '') 6 (''-'', ''42'') @ [CHR 0x0A]" for a
    by (simp add: operator_call_eq setw_field_def w f number_conv_def)
      (simp add: SetWidth_def default_om_def)
  have k: "keeps_adjustment pieces"
    by (rule pieces_keeps)
  let ?cs = "[CallSetWidth 8, CallSetFloatMode 1, Call [error_code],
      CallPrintRange [error_code, error_code]]"
  let ?s1 = "(default_om, on_stream default_om (SetAlignment 0) mem0)"
  have na: "\<forall>k\<in>set ?cs. \<not> sets_alignment k"
    by simp
  obtain s' where r': "run pieces ?cs ?s1 = Some s'"
    by (simp add: SetWidth_def)
  obtain om' mem' where s': "s' = (om', mem')"
    by (cases s')
  have r: "run pieces ?cs ?s1 = Some (om', mem')"
    using r' unfolding s' .
  note q = m0 [THEN conjunct2, THEN conjunct2, THEN conjunct2, THEN conjunct2, THEN conjunct1,
      THEN spec, THEN spec, THEN spec, THEN mp]
  have "flags (destination (om', mem')) \<inter> adjustfield =
      flags (SetAlignment 0 (destination (default_om, mem0))) \<inter> adjustfield"
  proof (rule q)
    show "keeps_adjustment pieces \<and> (\<forall>k\<in>set ?cs. \<not> sets_alignment k) \<and>
        run pieces ?cs ?s1 = Some (om', mem')"
      using k na r by (intro conjI)
  qed
  also have "\<dots> = {internal}"
    by (simp add: SetAlignment_adjust)
  finally have i: "flags (destination (om', mem')) \<inter> adjustfield = {internal}" .
  have eq: "run pieces (CallSetAlignment 0 # ?cs) (default_om, mem0) = run pieces ?cs ?s1"
    by simp
  have e: "map_option (\<lambda>s. flags (destination s) \<inter> adjustfield)
     (run pieces (CallSetAlignment 0 # ?cs) (default_om, mem0)) = Some {internal}"
    unfolding eq r by (simp add: i)
  have l: "flags (destination (OutputManager_default mem0)) \<inter> adjustfield = {left}"
    by (rule m0 [THEN conjunct2, THEN conjunct2, THEN conjunct2, THEN conjunct2, THEN conjunct2,
          THEN conjunct1])
  from s0 s1 s2 c [of 0] c [of 1] c [of "- 1"] p0 p1 p2 k e l show ?thesis
    by (simp only:)
qed

text \<open>
  C9. The reference \<^verbatim>\<open>OutStream__\<close> is the stream given to the constructor,
  \<^verbatim>\<open>std::wcout\<close> when none is given, and no sequence of calls of the member functions
  changes it. The copy constructor and the copy assignment are deleted in the class: the
  constructors and the calls above are all there is to make or change an object.
\<close>

theorem OutStream_fixed:
  "OutStream (fst (OutputManager_default mem)) = wcout
   \<and> OutStream (fst (OutputManager_stream out mem)) = out
   \<and> OutStream (fst (OutputManager_strings sep eol mem)) = wcout
   \<and> OutStream (fst (OutputManager_all out sep eol mem)) = out
   \<and> (\<forall>cs om' m'. run ins cs (om, m) = Some (om', m') \<longrightarrow> OutStream om' = OutStream om)"
proof (intro conjI allI impI)
  show "OutStream (fst (OutputManager_default mem)) = wcout"
    by (simp add: OutputManager_default_def construct_def Let_def)
  show "OutStream (fst (OutputManager_stream out mem)) = out"
    by (simp add: OutputManager_stream_def construct_def Let_def)
  show "OutStream (fst (OutputManager_strings sep eol mem)) = wcout"
    by (simp add: OutputManager_strings_def construct_def Let_def)
  show "OutStream (fst (OutputManager_all out sep eol mem)) = out"
    by (simp add: OutputManager_all_def construct_def Let_def)
  fix cs :: "'a call list" and om' m'
  assume "run ins cs (om, m) = Some (om', m')"
  then show "OutStream om' = OutStream om"
    by (rule run_OutStream)
qed

theorem OutStream_fixed_witness:
  "map_option (\<lambda>s. OutStream (fst s))
     (run (formatted string_conv)
        [CallSetWidth 8, CallSetSeparator '', '', CallSetEndOfLine '';'', CallSetAlignment 0,
         CallSetPrecision 3, CallSetFloatMode 1, Call [''a'', ''b''], CallPrintRange numbers,
         CallFormatToColumns numbers [floats, words], CallFormatToRows numbers [floats, words],
         CallFirstNElementsRows 3 numbers [floats, words]]
        (OutputManager_stream 7 mem0)) = Some 7"
proof -
  let ?cs = "[CallSetWidth 8, CallSetSeparator '', '', CallSetEndOfLine '';'', CallSetAlignment 0,
         CallSetPrecision 3, CallSetFloatMode 1, Call [''a'', ''b''], CallPrintRange numbers,
         CallFormatToColumns numbers [floats, words], CallFormatToRows numbers [floats, words],
         CallFirstNElementsRows 3 numbers [floats, words]]"
  obtain om1 mem1 where d: "OutputManager_stream 7 mem0 = (om1, mem1)"
    by (cases "OutputManager_stream 7 mem0")
  obtain s' where r: "run (formatted string_conv) ?cs (om1, mem1) = Some s'"
    by (simp add: on_stream_opt_def FormatToRows_def FirstNElementsRows_def
        SetWidth_def SetSeparator_def SetEndOfLine_def numbers_def floats_def words_def)
  obtain om' m' where s': "s' = (om', m')"
    by (cases s')
  note t = OutStream_fixed [where ins = "formatted string_conv" and om = om1 and m = mem1 and out = 7
      and mem = mem0 and sep = "[]" and eol = "[]"]
  from t have a: "OutStream (fst (OutputManager_stream 7 mem0)) = 7"
    by blast
  from t have "\<forall>cs om' m'. run (formatted string_conv) cs (om1, mem1) = Some (om', m') \<longrightarrow>
      OutStream om' = OutStream om1"
    by blast
  then have "OutStream om' = OutStream om1"
    using r unfolding s' by blast
  then have "OutStream (fst s') = 7"
    using a by (simp add: d s')
  then show ?thesis
    by (simp only: d r) simp
qed

end
